theory Spec2Isabelle
  imports Main
begin

section \<open>Values and objects of the archive module\<close>

text \<open>
  The JavaScript values that the module compares and copies: identifiers, query
  parameters, timestamps. Numbers are integers here (identifiers are strings in
  practice), so \<open>===\<close> on these primitive values is plain equality, and
  \<open>undefined === undefined\<close> holds as in JavaScript.
\<close>

datatype jsval = Undefined | Null | JBool bool | JNum int | JStr string

definition strict_eq :: "jsval \<Rightarrow> jsval \<Rightarrow> bool" where
  "strict_eq a b = (a = b)"

text \<open>The error response object with which the api rejects a request.\<close>

record response =
  status :: int
  data :: jsval

text \<open>
  A content item, as the module uses it: \<open>item._id\<close>, \<open>item.guid\<close>,
  \<open>item.task_id\<close>, \<open>item.created\<close>, \<open>item.error\<close> (absent is \<open>None\<close>)
  and the object \<open>item.actioning\<close>, a dictionary from action names to flags
  (a missing key is \<open>None\<close>). Every other property of the item lives in the
  field \<open>others\<close>.
\<close>

record item =
  item_id :: jsval
  guid :: jsval
  task_id :: jsval
  created :: jsval
  error :: "response option"
  actioning :: "string \<rightharpoonup> bool"
  others :: "string \<rightharpoonup> jsval"

text \<open>Items are objects passed by reference: a store from references to items.\<close>

type_synonym ref = nat

text \<open>A request handed to the api service: the resource, the item or body, the payload.\<close>

datatype request =
    Update string ref "(string \<times> jsval) list"
  | Create string "(string \<times> jsval) list"

text \<open>
  Everything the module can read or write: the item objects, the query parameters
  of \<open>$location\<close> (the tracked selection is the parameter \<open>_id\<close>), the desk
  that \<open>desks.getCurrentDeskId()\<close> returns, and the requests issued so far,
  oldest first.
\<close>

record world =
  items :: "ref \<Rightarrow> item"
  search :: "string \<rightharpoonup> jsval"
  current_desk :: jsval
  requests :: "request list"

text \<open>How the deferred result of a request settles.\<close>

datatype 'a outcome = Resolved 'a | Rejected response

section \<open>The collaborators injected into the module\<close>

text \<open>Reading a property of an object: a missing property reads as \<open>undefined\<close>.\<close>

definition get_prop :: "(string \<rightharpoonup> jsval) \<Rightarrow> string \<Rightarrow> jsval" where
  "get_prop obj k = (case obj k of None \<Rightarrow> Undefined | Some v \<Rightarrow> v)"

text \<open>
  \<open>$location.search()\<close> returns the query parameters; \<open>$location.search(k, v)\<close>
  with \<open>v\<close> null (or undefined) deletes the parameter \<open>k\<close> and otherwise
  stores \<open>v\<close>, as AngularJS documents it.
\<close>

definition location_search :: "world \<Rightarrow> (string \<rightharpoonup> jsval)" where
  "location_search w = search w"

definition location_search_set :: "string \<Rightarrow> jsval \<Rightarrow> world \<Rightarrow> world" where
  "location_search_set k v w =
     (if v = Null \<or> v = Undefined then w\<lparr>search := (search w)(k := None)\<rparr>
      else w\<lparr>search := (search w)(k \<mapsto> v)\<rparr>)"

text \<open>
  Modelled from the spec: \<open>api.update(resourceName, item, patch)\<close> belongs to
  the host's HTTP client, which is not among the sources. It issues one request
  and returns a deferred result that settles later, fulfilled or rejected with
  an error response; issuing the request touches neither the item nor the
  location.
\<close>

definition api_update :: "string \<Rightarrow> ref \<Rightarrow> (string \<times> jsval) list \<Rightarrow> world \<Rightarrow> world" where
  "api_update resource r patch w = w\<lparr>requests := requests w @ [Update resource r patch]\<rparr>"

text \<open>
  Modelled from the spec: \<open>create(payload)\<close> of an api resource, the creation
  request of the same HTTP client; its deferred result is fulfilled with the
  created resource.
\<close>

definition api_create :: "string \<Rightarrow> (string \<times> jsval) list \<Rightarrow> world \<Rightarrow> world" where
  "api_create resource payload w = w\<lparr>requests := requests w @ [Create resource payload]\<rparr>"

text \<open>\<open>desks.getCurrentDeskId()\<close> of the host.\<close>

definition getCurrentDeskId :: "world \<Rightarrow> jsval" where
  "getCurrentDeskId w = current_desk w"

text \<open>
  \<open>promise.then(onFulfilled, onRejected)\<close>: when the deferred result settles,
  exactly one of the two callbacks runs, once. The callbacks of this module
  have no \<open>return\<close> and no \<open>throw\<close>, so the promise that \<open>then\<close> returns is
  fulfilled with \<open>undefined\<close> on either path.
\<close>

definition promise_then ::
  "('a \<Rightarrow> world \<Rightarrow> world) \<Rightarrow> (response \<Rightarrow> world \<Rightarrow> world) \<Rightarrow> 'a outcome \<Rightarrow> world
     \<Rightarrow> jsval outcome \<times> world" where
  "promise_then onFulfilled onRejected oc w =
     (case oc of
        Resolved v \<Rightarrow> (Resolved Undefined, onFulfilled v w)
      | Rejected e \<Rightarrow> (Resolved Undefined, onRejected e w))"

section \<open>Assignments to the item\<close>

text \<open>\<open>item.actioning[a] = b\<close>, \<open>item.error = resp\<close> and the two copies of the fetch.\<close>

definition set_actioning :: "ref \<Rightarrow> string \<Rightarrow> bool \<Rightarrow> world \<Rightarrow> world" where
  "set_actioning r a b w =
     w\<lparr>items := (items w)(r := (items w r)\<lparr>actioning := (actioning (items w r))(a \<mapsto> b)\<rparr>)\<rparr>"

definition set_error :: "ref \<Rightarrow> response \<Rightarrow> world \<Rightarrow> world" where
  "set_error r resp w = w\<lparr>items := (items w)(r := (items w r)\<lparr>error := Some resp\<rparr>)\<rparr>"

definition set_task_id :: "ref \<Rightarrow> jsval \<Rightarrow> world \<Rightarrow> world" where
  "set_task_id r v w = w\<lparr>items := (items w)(r := (items w r)\<lparr>task_id := v\<rparr>)\<rparr>"

definition set_created :: "ref \<Rightarrow> jsval \<Rightarrow> world \<Rightarrow> world" where
  "set_created r v w = w\<lparr>items := (items w)(r := (items w r)\<lparr>created := v\<rparr>)\<rparr>"

section \<open>SpikeService\<close>

definition SPIKE_RESOURCE :: string where
  "SPIKE_RESOURCE = ''archive_spike''"

definition UNSPIKE_RESOURCE :: string where
  "UNSPIKE_RESOURCE = ''archive_unspike''"

text \<open>The success callback of \<open>spike\<close>.\<close>

definition spike_fulfilled :: "ref \<Rightarrow> world \<Rightarrow> world" where
  "spike_fulfilled r w =
     (let w1 = (if strict_eq (get_prop (location_search w) ''_id'') (item_id (items w r))
                then location_search_set ''_id'' Null w
                else w)
      in set_actioning r ''spike'' False w1)"

text \<open>The failure callback of \<open>spike\<close>.\<close>

definition spike_rejected :: "ref \<Rightarrow> response \<Rightarrow> world \<Rightarrow> world" where
  "spike_rejected r resp w = set_actioning r ''spike'' False (set_error r resp w)"

text \<open>
  \<open>spike(item)\<close>: the synchronous part issues the request; the second component
  is what runs when the request settles, on the world as it is then.
\<close>

definition spike ::
  "ref \<Rightarrow> world \<Rightarrow> world \<times> (jsval outcome \<Rightarrow> world \<Rightarrow> jsval outcome \<times> world)" where
  "spike r w =
     (api_update SPIKE_RESOURCE r [(''state'', JStr ''spiked'')] w,
      promise_then (\<lambda>_. spike_fulfilled r) (spike_rejected r))"

text \<open>The callbacks of \<open>unspike\<close>, and \<open>unspike(item)\<close>.\<close>

definition unspike_fulfilled :: "ref \<Rightarrow> world \<Rightarrow> world" where
  "unspike_fulfilled r w = set_actioning r ''unspike'' False w"

definition unspike_rejected :: "ref \<Rightarrow> response \<Rightarrow> world \<Rightarrow> world" where
  "unspike_rejected r resp w = set_actioning r ''unspike'' False (set_error r resp w)"

definition unspike ::
  "ref \<Rightarrow> world \<Rightarrow> world \<times> (jsval outcome \<Rightarrow> world \<Rightarrow> jsval outcome \<times> world)" where
  "unspike r w =
     (api_update UNSPIKE_RESOURCE r [] w,
      promise_then (\<lambda>_. unspike_fulfilled r) (unspike_rejected r))"

text \<open>
  A call followed by the settling of its request, with nothing in between:
  \<open>run call oc w\<close> is the promise's final state and the final world.
\<close>

definition run ::
  "(world \<Rightarrow> world \<times> ('a outcome \<Rightarrow> world \<Rightarrow> jsval outcome \<times> world)) \<Rightarrow> 'a outcome \<Rightarrow> world
     \<Rightarrow> jsval outcome \<times> world" where
  "run call oc w = (case call w of (w1, k) \<Rightarrow> k oc w1)"

section \<open>The fetch activity\<close>

text \<open>
  The controller of the activity \<open>archiveContent\<close>; \<open>r\<close> is \<open>data.item\<close>. The
  request is fulfilled with the created archive item.
\<close>

definition archiveContent_fulfilled :: "ref \<Rightarrow> item \<Rightarrow> world \<Rightarrow> world" where
  "archiveContent_fulfilled r archiveItem w =
     set_actioning r ''archiveContent'' False
       (set_created r (created archiveItem)
          (set_task_id r (task_id archiveItem) w))"

definition archiveContent_rejected :: "ref \<Rightarrow> response \<Rightarrow> world \<Rightarrow> world" where
  "archiveContent_rejected r resp w =
     set_actioning r ''archiveContent'' False (set_error r resp w)"

definition archiveContent ::
  "ref \<Rightarrow> world \<Rightarrow> world \<times> (item outcome \<Rightarrow> world \<Rightarrow> jsval outcome \<times> world)" where
  "archiveContent r w =
     (api_create ''archiveIngest''
        [(''guid'', guid (items w r)), (''desk'', getCurrentDeskId w)] w,
      promise_then (archiveContent_fulfilled r) (archiveContent_rejected r))"

section \<open>The users resource of the feature file\<close>

text \<open>
  The feature \<open>User Resource\<close> exercises an HTTP resource \<open>/users\<close>. JSON
  bodies are objects of strings and nested objects.
\<close>

datatype json = JString string | JObject "(string \<times> json) list"

record user =
  username :: string
  password :: "string option"
  first_name :: "string option"

datatype http_response =
    Created "(string \<times> json) list"
  | Ok "(string \<times> json) list"
  | OkList "(string \<times> json) list list"
  | Refused
  | NotFound

text \<open>
  Modelled from the spec: the server behind \<open>/users\<close> is not among the sources,
  only its feature file is. A user is keyed by its \<open>username\<close>; \<open>password\<close> is
  required at creation and write-only; \<open>first_name\<close> is optional; a
  representation carries \<open>username\<close>, \<open>first_name\<close> when there is one, and
  \<open>_links.self.href\<close>, which is \<open>/users/{username}\<close>. A fetch of an absent
  user fails; a list returns one summary per stored user.
\<close>

definition user_representation :: "user \<Rightarrow> (string \<times> json) list" where
  "user_representation u =
     [(''username'', JString (username u))]
     @ (case first_name u of None \<Rightarrow> [] | Some n \<Rightarrow> [(''first_name'', JString n)])
     @ [(''_links'', JObject [(''self'', JObject [(''href'', JString (''/users/'' @ username u))])])]"

text \<open>The string under a key of a JSON body, if there is one.\<close>

definition json_string :: "json option \<Rightarrow> string option" where
  "json_string j = (case j of Some (JString s) \<Rightarrow> Some s | _ \<Rightarrow> None)"

text \<open>
  Modelled from the spec: \<open>POST /users\<close>. The body must carry \<open>username\<close> and
  \<open>password\<close>, and the username must be new; the response is the
  representation of the stored user.
\<close>

definition post_users :: "(string \<times> json) list \<Rightarrow> user list \<Rightarrow> http_response \<times> user list" where
  "post_users body users =
     (case (json_string (map_of body ''username''), json_string (map_of body ''password'')) of
        (Some n, Some p) \<Rightarrow>
          (if n \<in> set (map username users) then (Refused, users)
           else (let u = \<lparr>username = n, password = Some p,
                           first_name = json_string (map_of body ''first_name'')\<rparr>
                 in (Created (user_representation u), users @ [u])))
      | _ \<Rightarrow> (Refused, users))"

text \<open>Modelled from the spec: \<open>GET /users/{username}\<close>.\<close>

definition get_user :: "string \<Rightarrow> user list \<Rightarrow> http_response" where
  "get_user n users =
     (case find (\<lambda>u. username u = n) users of
        None \<Rightarrow> NotFound
      | Some u \<Rightarrow> Ok (user_representation u))"

text \<open>Modelled from the spec: \<open>GET /users\<close>.\<close>

definition get_users :: "user list \<Rightarrow> http_response" where
  "get_users users = OkList (map user_representation users)"

text \<open>Whether a response carries a field \<open>password\<close> at the top of a representation.\<close>

definition exposes_password :: "http_response \<Rightarrow> bool" where
  "exposes_password resp =
     (case resp of
        Created rep \<Rightarrow> ''password'' \<in> set (map fst rep)
      | Ok rep \<Rightarrow> ''password'' \<in> set (map fst rep)
      | OkList reps \<Rightarrow> list_ex (\<lambda>rep. ''password'' \<in> set (map fst rep)) reps
      | Refused \<Rightarrow> False
      | NotFound \<Rightarrow> False)"

section \<open>Example worlds\<close>

text \<open>
  An item that the list view shows and the activity framework has marked as
  being spiked, and one whose flag nobody has set.
\<close>

definition story :: item where
  "story = \<lparr>item_id = JStr ''a1'', guid = JStr ''urn:a1'', task_id = Undefined,
            created = Undefined, error = None,
            actioning = [''spike'' \<mapsto> True], others = [''state'' \<mapsto> JStr ''normal'']\<rparr>"

definition idle_story :: item where
  "idle_story = story\<lparr>actioning := [''spike'' \<mapsto> False]\<rparr>"

definition newsroom :: world where
  "newsroom = \<lparr>items = (\<lambda>_. story), search = [''_id'' \<mapsto> JStr ''a1''],
               current_desk = JStr ''desk1'', requests = []\<rparr>"

definition idle_newsroom :: world where
  "idle_newsroom = newsroom\<lparr>items := (\<lambda>_. idle_story)\<rparr>"

definition server_error :: response where
  "server_error = \<lparr>status = 500, data = JStr ''boom''\<rparr>"

section \<open>Properties of the spike service\<close>

lemmas world_ops =
  api_update_def api_create_def set_actioning_def set_error_def set_task_id_def
  set_created_def location_search_def location_search_set_def get_prop_def strict_eq_def
  getCurrentDeskId_def promise_then_def run_def

lemmas spike_ops = spike_def spike_fulfilled_def spike_rejected_def SPIKE_RESOURCE_def

lemmas unspike_ops = unspike_def unspike_fulfilled_def unspike_rejected_def UNSPIKE_RESOURCE_def

lemmas archive_ops = archiveContent_def archiveContent_fulfilled_def archiveContent_rejected_def

lemmas examples = story_def idle_story_def newsroom_def idle_newsroom_def server_error_def

text \<open>
  C1. For every item, \<open>spike(item)\<close> issues exactly one update request, against
  the resource \<open>archive_spike\<close>, with the item and the payload
  \<open>{state: 'spiked'}\<close>; neither callback issues a further request; and when
  the request settles, fulfilled or rejected, \<open>item.actioning.spike\<close> is false.
  Here \<open>w'\<close> is the world at the moment the request settles, whatever happened
  in between.
\<close>

theorem spike_issues_one_update_and_clears_flag:
  "requests (fst (spike r w)) = requests w @ [Update ''archive_spike'' r [(''state'', JStr ''spiked'')]]
   \<and> requests (snd (snd (spike r w) oc w')) = requests w'
   \<and> actioning (items (snd (snd (spike r w) oc w')) r) ''spike'' = Some False
   \<and> requests (snd (run (spike r) oc w))
       = requests w @ [Update ''archive_spike'' r [(''state'', JStr ''spiked'')]]
   \<and> actioning (items (snd (run (spike r) oc w)) r) ''spike'' = Some False"
  by (cases oc) (simp_all add: spike_ops world_ops Let_def)

text \<open>
  C2, as stated: calling \<open>spike(i)\<close> sets \<open>i.actioning.spike\<close> to true before
  the request settles. It does not: for an item whose flag is false, the flag
  is still false once the synchronous part of \<open>spike\<close> has run.
\<close>

theorem spike_does_not_set_flag_counterexample:
  "actioning (items (fst (spike 0 idle_newsroom)) 0) ''spike'' = Some False
   \<and> actioning (items (fst (spike 0 idle_newsroom)) 0) ''spike'' \<noteq> Some True"
  by (simp add: spike_ops world_ops examples)

text \<open>
  C2, amended: the synchronous part of \<open>spike(i)\<close> leaves every item, and so
  \<open>i.actioning.spike\<close>, as the caller left it; after the request has settled,
  fulfilled or rejected, \<open>i.actioning.spike\<close> is false.
\<close>

theorem spike_flag_untouched_until_settled:
  "items (fst (spike r w)) = items w
   \<and> actioning (items (fst (spike r w)) r) ''spike'' = actioning (items w r) ''spike''
   \<and> actioning (items (snd (snd (spike r w) (Resolved v) w')) r) ''spike'' = Some False
   \<and> actioning (items (snd (snd (spike r w) (Rejected resp) w')) r) ''spike'' = Some False"
  by (simp add: spike_ops world_ops Let_def)

text \<open>
  C3. When \<open>spike(i)\<close> succeeds, the tracked selection (the query parameter
  \<open>_id\<close>) is removed if it is strictly equal to \<open>i._id\<close>, and the query
  parameters are left as they were if it is not. An absent parameter reads as
  \<open>undefined\<close>. The condition is stated on the stored query parameter
  itself. In the example newsroom the selection \<open>a1\<close> is the item's own and is
  removed; a selection \<open>b2\<close> of another item, and an absent selection, stay
  as they are, with the other parameters.
\<close>

theorem spike_success_clears_matching_selection:
  "search (snd (snd (spike r w0) (Resolved v) w))
     = (if (case search w ''_id'' of None \<Rightarrow> Undefined | Some sel \<Rightarrow> sel) = item_id (items w r)
        then (search w)(''_id'' := None) else search w)
   \<and> search (snd (run (spike r) (Resolved v) w))
     = (if (case search w ''_id'' of None \<Rightarrow> Undefined | Some sel \<Rightarrow> sel) = item_id (items w r)
        then (search w)(''_id'' := None) else search w)
   \<and> item_id (items newsroom 0) = JStr ''a1''
   \<and> search newsroom ''_id'' = Some (JStr ''a1'')
   \<and> search (snd (run (spike 0) (Resolved Undefined) newsroom)) ''_id'' = None
   \<and> search (snd (run (spike 0) (Resolved Undefined)
         (newsroom\<lparr>search := [''_id'' \<mapsto> JStr ''b2'', ''q'' \<mapsto> JStr ''news'']\<rparr>)))
       = [''_id'' \<mapsto> JStr ''b2'', ''q'' \<mapsto> JStr ''news'']
   \<and> search (snd (run (spike 0) (Resolved Undefined)
         (newsroom\<lparr>search := [''q'' \<mapsto> JStr ''news'']\<rparr>)))
       = [''q'' \<mapsto> JStr ''news'']"
proof -
  have fulfilled:
    "search (spike_fulfilled r' w')
       = (if (case search w' ''_id'' of None \<Rightarrow> Undefined | Some sel \<Rightarrow> sel) = item_id (items w' r')
          then (search w')(''_id'' := None) else search w')" for r' w'
    by (simp add: spike_fulfilled_def world_ops Let_def)
  have settle: "snd (snd (spike r' w0') (Resolved v') w') = spike_fulfilled r' w'"
    for r' w0' v' w'
    by (simp add: spike_def promise_then_def)
  have whole: "snd (run (spike r') (Resolved v') w') = spike_fulfilled r' (fst (spike r' w'))"
    for r' v' w'
    by (simp add: run_def spike_def promise_then_def)
  have issued: "search (fst (spike r' w')) = search w' \<and> items (fst (spike r' w')) = items w'"
    for r' w'
    by (simp add: spike_def api_update_def)
  have at_settling:
    "search (snd (snd (spike r w0) (Resolved v) w))
       = (if (case search w ''_id'' of None \<Rightarrow> Undefined | Some sel \<Rightarrow> sel) = item_id (items w r)
          then (search w)(''_id'' := None) else search w)"
    by (simp only: settle fulfilled)
  have call_and_settling:
    "search (snd (run (spike r') (Resolved v') w'))
       = (if (case search w' ''_id'' of None \<Rightarrow> Undefined | Some sel \<Rightarrow> sel) = item_id (items w' r')
          then (search w')(''_id'' := None) else search w')" for r' v' w'
    by (simp only: whole fulfilled issued)
  have own: "item_id (items newsroom 0) = JStr ''a1'' \<and> search newsroom ''_id'' = Some (JStr ''a1'')"
    by (simp add: examples)
  have removed: "search (snd (run (spike 0) (Resolved Undefined) newsroom)) ''_id'' = None"
    by (simp add: call_and_settling own)
  have other_kept:
    "search (snd (run (spike 0) (Resolved Undefined)
         (newsroom\<lparr>search := [''_id'' \<mapsto> JStr ''b2'', ''q'' \<mapsto> JStr ''news'']\<rparr>)))
       = [''_id'' \<mapsto> JStr ''b2'', ''q'' \<mapsto> JStr ''news'']"
    by (simp add: call_and_settling examples)
  have absent_kept:
    "search (snd (run (spike 0) (Resolved Undefined)
         (newsroom\<lparr>search := [''q'' \<mapsto> JStr ''news'']\<rparr>)))
       = [''q'' \<mapsto> JStr ''news'']"
    by (simp add: call_and_settling examples)
  from at_settling call_and_settling own removed other_kept absent_kept
  show ?thesis by blast
qed

text \<open>
  C4. When the request of \<open>spike\<close> or of \<open>unspike\<close> is rejected with \<open>resp\<close>,
  the rejection callback leaves \<open>i.error = resp\<close> and the flag of the action
  false, issues no request (no retry), and returns normally: the promise that
  the service returned is fulfilled, not rejected.
\<close>

theorem rejection_records_error_and_clears_flag:
  "error (items (snd (snd (spike r w0) (Rejected resp) w)) r) = Some resp
   \<and> actioning (items (snd (snd (spike r w0) (Rejected resp) w)) r) ''spike'' = Some False
   \<and> requests (snd (snd (spike r w0) (Rejected resp) w)) = requests w
   \<and> fst (snd (spike r w0) (Rejected resp) w) = Resolved Undefined
   \<and> error (items (snd (snd (unspike r w0) (Rejected resp) w)) r) = Some resp
   \<and> actioning (items (snd (snd (unspike r w0) (Rejected resp) w)) r) ''unspike'' = Some False
   \<and> requests (snd (snd (unspike r w0) (Rejected resp) w)) = requests w
   \<and> fst (snd (unspike r w0) (Rejected resp) w) = Resolved Undefined"
  by (simp add: spike_ops unspike_ops world_ops)

text \<open>
  C5, as stated: after an operation that completes successfully \<open>item.error\<close>
  is absent. It is not: an item without an error is spiked, the request is
  rejected, the item is spiked again and the request succeeds; the error of
  the first attempt is still on the item.
\<close>

theorem stale_error_survives_success_counterexample:
  "error (items newsroom 0) = None
   \<and> error (items (snd (run (spike 0) (Resolved Undefined)
        (snd (run (spike 0) (Rejected server_error) newsroom)))) 0) = Some server_error"
  by (simp add: spike_ops world_ops examples Let_def)

text \<open>
  C5, amended: \<open>item.error\<close> is written only by a rejection callback, which
  stores the rejection payload; issuing a request and a success callback leave
  the \<open>error\<close> of every item as it was, so a successful operation does not clear it.
\<close>

theorem error_set_on_failure_kept_on_success:
  "error (items (snd (snd (spike r w0) (Rejected resp) w)) r) = Some resp
   \<and> error (items (snd (snd (unspike r w0) (Rejected resp) w)) r) = Some resp
   \<and> error (items (snd (snd (archiveContent r w0) (Rejected resp) w)) r) = Some resp
   \<and> error (items (snd (snd (spike r w0) (Resolved v) w)) r') = error (items w r')
   \<and> error (items (snd (snd (unspike r w0) (Resolved v) w)) r') = error (items w r')
   \<and> error (items (snd (snd (archiveContent r w0) (Resolved a) w)) r') = error (items w r')
   \<and> error (items (fst (spike r w)) r') = error (items w r')
   \<and> error (items (fst (unspike r w)) r') = error (items w r')
   \<and> error (items (fst (archiveContent r w)) r') = error (items w r')"
  by (simp add: spike_ops unspike_ops archive_ops world_ops Let_def)

text \<open>
  C6. \<open>unspike(item)\<close> issues one update request against \<open>archive_unspike\<close>
  with the item and an empty payload. On success the callback sets
  \<open>item.actioning.unspike\<close> to false and nothing else; on failure it stores the
  rejection payload in \<open>item.error\<close> and sets \<open>item.actioning.unspike\<close> to false.
\<close>

theorem unspike_issues_update_and_settles:
  "fst (unspike r w) = w\<lparr>requests := requests w @ [Update ''archive_unspike'' r []]\<rparr>
   \<and> snd (unspike r w) (Resolved v) w'
       = (Resolved Undefined,
          w'\<lparr>items := (items w')(r := (items w' r)
               \<lparr>actioning := (actioning (items w' r))(''unspike'' \<mapsto> False)\<rparr>)\<rparr>)
   \<and> snd (unspike r w) (Rejected resp) w'
       = (Resolved Undefined,
          w'\<lparr>items := (items w')(r := (items w' r)
               \<lparr>error := Some resp,
                actioning := (actioning (items w' r))(''unspike'' \<mapsto> False)\<rparr>)\<rparr>)"
  by (simp add: unspike_ops world_ops)

section \<open>Properties of the fetch activity\<close>

text \<open>
  C7. The controller of \<open>archiveContent\<close> issues one creation request against
  the ingest resource \<open>archiveIngest\<close> with the item's \<open>guid\<close> and the current
  desk. On success it copies \<open>task_id\<close> and \<open>created\<close> of the returned archive
  item onto the item and sets \<open>actioning.archiveContent\<close> to false; on failure
  it stores the rejection payload in \<open>item.error\<close> and sets the flag to false.
\<close>

theorem archiveContent_fetches_and_settles:
  "fst (archiveContent r w)
     = w\<lparr>requests := requests w
            @ [Create ''archiveIngest'' [(''guid'', guid (items w r)), (''desk'', current_desk w)]]\<rparr>
   \<and> snd (archiveContent r w) (Resolved archiveItem) w'
       = (Resolved Undefined,
          w'\<lparr>items := (items w')(r := (items w' r)
               \<lparr>task_id := task_id archiveItem, created := created archiveItem,
                actioning := (actioning (items w' r))(''archiveContent'' \<mapsto> False)\<rparr>)\<rparr>)
   \<and> snd (archiveContent r w) (Rejected resp) w'
       = (Resolved Undefined,
          w'\<lparr>items := (items w')(r := (items w' r)
               \<lparr>error := Some resp,
                actioning := (actioning (items w' r))(''archiveContent'' \<mapsto> False)\<rparr>)\<rparr>)"
  by (simp add: archive_ops world_ops)

section \<open>What spike and unspike leave alone\<close>

text \<open>
  C8. Issuing the request changes nothing but the list of requests. When the
  request settles, on either path, the world differs from the one the callback
  found only in the passed-in item, and there only in \<open>error\<close> and in the
  action's own flag of \<open>actioning\<close>, and, for \<open>spike\<close>, in the query
  parameters of the location. Every other item, every other field of the item,
  the current desk and, for \<open>unspike\<close>, the location are as they were. The
  last two equations say the same of a call and its settling taken together.
\<close>

theorem spike_unspike_frame:
  "fst (spike r w) = w\<lparr>requests := requests w @ [Update ''archive_spike'' r [(''state'', JStr ''spiked'')]]\<rparr>
   \<and> fst (unspike r w) = w\<lparr>requests := requests w @ [Update ''archive_unspike'' r []]\<rparr>
   \<and> snd (snd (spike r w) oc w')
       = w'\<lparr>items := (items w')(r := (items w' r)
               \<lparr>error := error (items (snd (snd (spike r w) oc w')) r),
                actioning := (actioning (items w' r))(''spike'' \<mapsto> False)\<rparr>),
             search := search (snd (snd (spike r w) oc w'))\<rparr>
   \<and> snd (snd (unspike r w) oc w')
       = w'\<lparr>items := (items w')(r := (items w' r)
               \<lparr>error := error (items (snd (snd (unspike r w) oc w')) r),
                actioning := (actioning (items w' r))(''unspike'' \<mapsto> False)\<rparr>)\<rparr>
   \<and> snd (run (spike r) oc w)
       = w\<lparr>items := (items w)(r := (items w r)
               \<lparr>error := error (items (snd (run (spike r) oc w)) r),
                actioning := (actioning (items w r))(''spike'' \<mapsto> False)\<rparr>),
             search := search (snd (run (spike r) oc w)),
             requests := requests w @ [Update ''archive_spike'' r [(''state'', JStr ''spiked'')]]\<rparr>
   \<and> snd (run (unspike r) oc w)
       = w\<lparr>items := (items w)(r := (items w r)
               \<lparr>error := error (items (snd (run (unspike r) oc w)) r),
                actioning := (actioning (items w r))(''unspike'' \<mapsto> False)\<rparr>),
             requests := requests w @ [Update ''archive_unspike'' r []]\<rparr>"
proof (cases oc)
  case (Resolved v)
  then show ?thesis
    by (simp add: spike_ops unspike_ops world_ops Let_def)
next
  case (Rejected resp)
  then show ?thesis
    by (simp add: spike_ops unspike_ops world_ops)
qed

text \<open>
  C10. When the request of \<open>spike\<close> is rejected, the query parameters of the
  location are left as they were, also when the tracked selection equals the
  item's identifier, as it does in the example newsroom.
\<close>

theorem spike_failure_keeps_selection:
  "search (snd (snd (spike r w0) (Rejected resp) w)) = search w
   \<and> search (snd (run (spike r) (Rejected resp) w)) = search w
   \<and> get_prop (search newsroom) ''_id'' = item_id (items newsroom 0)
   \<and> search (snd (run (spike 0) (Rejected server_error) newsroom)) ''_id'' = Some (JStr ''a1'')"
  by (simp add: spike_ops world_ops examples)

section \<open>Properties of the users resource\<close>

lemma representation_has_no_password:
  "''password'' \<notin> fst ` set (user_representation u)"
  by (cases "first_name u") (simp_all add: user_representation_def)

lemma post_users_hides_password: "\<not> exposes_password (fst (post_users body users))"
  by (simp add: post_users_def exposes_password_def Let_def representation_has_no_password
        split: option.split prod.split)

lemma get_user_hides_password: "\<not> exposes_password (get_user n users)"
  by (simp add: get_user_def exposes_password_def representation_has_no_password
        split: option.split)

lemma get_users_hides_password: "\<not> exposes_password (get_users users)"
  by (simp add: get_users_def exposes_password_def list_ex_iff representation_has_no_password)

text \<open>
  C9. Posting \<open>{"username": "foo", "password": "bar"}\<close> to the empty collection
  creates a resource whose representation is \<open>username\<close> \<open>foo\<close> with the self
  link \<open>/users/foo\<close>; a fetch of \<open>/users/foo\<close> afterwards returns the same; and
  no response to a creation, a fetch or a list, on any collection, carries a
  field \<open>password\<close>.
\<close>

theorem create_user_hides_password:
  "post_users [(''username'', JString ''foo''), (''password'', JString ''bar'')] []
     = (Created [(''username'', JString ''foo''),
                 (''_links'', JObject [(''self'', JObject [(''href'', JString ''/users/foo'')])])],
        [\<lparr>username = ''foo'', password = Some ''bar'', first_name = None\<rparr>])
   \<and> get_user ''foo''
        (snd (post_users [(''username'', JString ''foo''), (''password'', JString ''bar'')] []))
     = Ok [(''username'', JString ''foo''),
           (''_links'', JObject [(''self'', JObject [(''href'', JString ''/users/foo'')])])]
   \<and> \<not> exposes_password (fst (post_users body users))
   \<and> \<not> exposes_password (get_user n users)
   \<and> \<not> exposes_password (get_users users)"
  by (simp add: post_users_hides_password get_user_hides_password get_users_hides_password)
     (simp add: post_users_def get_user_def json_string_def user_representation_def)

end
